theory Spec2Isabelle
  imports Main
begin

section \<open>Syntax tree nodes read by the statement printer\<close>

text \<open>
  The printer of \<^verbatim>\<open>src/language-js/print/statement-sequence.js\<close> reads four
  properties of a statement node: \<^verbatim>\<open>type\<close>, and, on a
  \<^verbatim>\<open>VariableDeclaration\<close> only, \<^verbatim>\<open>kind\<close> and \<^verbatim>\<open>declarations\<close>; of a declarator it
  reads \<^verbatim>\<open>id\<close> and \<^verbatim>\<open>init\<close>, each an optional child node of which only the
  \<^verbatim>\<open>type\<close> is inspected. Node types are the strings the source compares with.
  A JavaScript object has an identity (the loop of the emitter compares two nodes with
  \<^verbatim>\<open>!==\<close>); the field \<open>ref\<close> is that identity.
\<close>

record child_node =
  child_type :: string

record declarator =
  decl_id :: "child_node option"
  decl_init :: "child_node option"

record node =
  ref :: nat
  node_type :: string
  kind :: string
  declarations :: "declarator list"

section \<open>Statement classification helpers\<close>

definition isImportOrExport :: "node \<Rightarrow> bool" where
  "isImportOrExport n \<longleftrightarrow>
     node_type n = ''ImportDeclaration'' \<or>
     node_type n = ''ExportNamedDeclaration'' \<or>
     node_type n = ''ExportDefaultDeclaration'' \<or>
     node_type n = ''ExportAllDeclaration'' \<or>
     node_type n = ''DeclareExportDeclaration'' \<or>
     node_type n = ''DeclareExportAllDeclaration''"

definition isTopLevelDeclaration :: "node \<Rightarrow> bool" where
  "isTopLevelDeclaration n \<longleftrightarrow>
     node_type n = ''FunctionDeclaration'' \<or>
     node_type n = ''ClassDeclaration'' \<or>
     node_type n = ''TSInterfaceDeclaration'' \<or>
     node_type n = ''TSTypeAliasDeclaration'' \<or>
     node_type n = ''TSEnumDeclaration'' \<or>
     node_type n = ''TSModuleDeclaration'' \<or>
     node_type n = ''DeclareClass'' \<or>
     node_type n = ''DeclareFunction'' \<or>
     node_type n = ''DeclareInterface'' \<or>
     node_type n = ''DeclareTypeAlias'' \<or>
     node_type n = ''DeclareModule'' \<or>
     node_type n = ''InterfaceDeclaration'' \<or>
     node_type n = ''TypeAlias'' \<or>
     node_type n = ''EnumDeclaration'' \<or>
     node_type n = ''ComponentDeclaration'' \<or>
     node_type n = ''HookDeclaration''"

definition isVariableDeclaration :: "node \<Rightarrow> bool" where
  "isVariableDeclaration n \<longleftrightarrow> node_type n = ''VariableDeclaration''"

text \<open>
  The arrow function given to \<^verbatim>\<open>some\<close> in \<^verbatim>\<open>isDestructuringDeclaration\<close>:
  \<^verbatim>\<open>decl.id && (decl.id.type === "ObjectPattern" || decl.id.type === "ArrayPattern")\<close>.
\<close>

definition destructuringId :: "declarator \<Rightarrow> bool" where
  "destructuringId decl =
     (case decl_id decl of
        None \<Rightarrow> False
      | Some i \<Rightarrow> child_type i = ''ObjectPattern'' \<or> child_type i = ''ArrayPattern'')"

definition isDestructuringDeclaration :: "node \<Rightarrow> bool" where
  "isDestructuringDeclaration n =
     (if \<not> isVariableDeclaration n then False
      else list_ex destructuringId (declarations n))"

text \<open>\<^verbatim>\<open>getDeclarationKind\<close> returns \<^verbatim>\<open>null\<close> (here \<open>None\<close>) on any other node.\<close>

definition getDeclarationKind :: "node \<Rightarrow> string option" where
  "getDeclarationKind n =
     (if \<not> isVariableDeclaration n then None else Some (kind n))"

definition isBlockStatement :: "node \<Rightarrow> bool" where
  "isBlockStatement n \<longleftrightarrow>
     node_type n = ''IfStatement'' \<or>
     node_type n = ''ForStatement'' \<or>
     node_type n = ''ForInStatement'' \<or>
     node_type n = ''ForOfStatement'' \<or>
     node_type n = ''WhileStatement'' \<or>
     node_type n = ''DoWhileStatement'' \<or>
     node_type n = ''TryStatement'' \<or>
     node_type n = ''SwitchStatement'' \<or>
     node_type n = ''WithStatement'' \<or>
     node_type n = ''BlockStatement'' \<or>
     node_type n = ''LabeledStatement''"

definition isReturnLikeStatement :: "node \<Rightarrow> bool" where
  "isReturnLikeStatement n \<longleftrightarrow> node_type n = ''ReturnStatement''"

text \<open>
  The arrow function given to \<^verbatim>\<open>some\<close> in \<^verbatim>\<open>isParagraphStatement\<close> and, twice more,
  in \<^verbatim>\<open>areInSameDeclarationBlock\<close>: \<^verbatim>\<open>decl.init && (decl.init.type ===
  "FunctionExpression" || decl.init.type === "ArrowFunctionExpression")\<close>.
\<close>

definition functionInit :: "declarator \<Rightarrow> bool" where
  "functionInit decl =
     (case decl_init decl of
        None \<Rightarrow> False
      | Some i \<Rightarrow>
          child_type i = ''FunctionExpression'' \<or> child_type i = ''ArrowFunctionExpression'')"

definition isParagraphStatement :: "node \<Rightarrow> bool" where
  "isParagraphStatement n \<longleftrightarrow>
     isTopLevelDeclaration n \<or>
     isBlockStatement n \<or>
     (node_type n = ''VariableDeclaration'' \<and> list_ex functionInit (declarations n))"

definition areInSameDeclarationBlock :: "node \<Rightarrow> node \<Rightarrow> bool" where
  "areInSameDeclarationBlock current next =
     (if \<not> isVariableDeclaration current \<or> \<not> isVariableDeclaration next then False
      else if isDestructuringDeclaration current \<or> isDestructuringDeclaration next then False
      else if getDeclarationKind current \<noteq> getDeclarationKind next then False
      else
        (let currentHasFunction = list_ex functionInit (declarations current);
             nextHasFunction = list_ex functionInit (declarations next)
         in if currentHasFunction \<or> nextHasFunction then False else True))"

section \<open>Blank line enforcement logic\<close>

definition shouldEnforceBlankLineBetween :: "node \<Rightarrow> node \<Rightarrow> bool" where
  "shouldEnforceBlankLineBetween current next =
     (if isImportOrExport current \<and> \<not> isImportOrExport next then True
      else if isImportOrExport current \<and> isImportOrExport next then False
      else if areInSameDeclarationBlock current next then False
      else if isVariableDeclaration current \<and>
              \<not> areInSameDeclarationBlock current next \<and>
              \<not> isReturnLikeStatement next then True
      else if isVariableDeclaration next \<and>
              \<not> isVariableDeclaration current \<and>
              \<not> isImportOrExport current then True
      else if isParagraphStatement current \<or> isParagraphStatement next then True
      else if isReturnLikeStatement next \<and> isParagraphStatement current then True
      else if isReturnLikeStatement next \<and> isBlockStatement current then True
      else False)"

text \<open>
  The decision rule as section 4.2 of the specification words it: rules 1 to 6 in that
  order, the first that matches decides, and rule 7 answers false. It is the function of
  the source without its last two branches.
\<close>

definition requiresBlank :: "node \<Rightarrow> node \<Rightarrow> bool" where
  "requiresBlank current next =
     (if isImportOrExport current \<and> \<not> isImportOrExport next then True
      else if isImportOrExport current \<and> isImportOrExport next then False
      else if areInSameDeclarationBlock current next then False
      else if isVariableDeclaration current \<and>
              \<not> areInSameDeclarationBlock current next \<and>
              \<not> isReturnLikeStatement next then True
      else if isVariableDeclaration next \<and>
              \<not> isVariableDeclaration current \<and>
              \<not> isImportOrExport current then True
      else if isParagraphStatement current \<or> isParagraphStatement next then True
      else False)"

section \<open>Documents\<close>

text \<open>
  The printers build values of the document language of \<^verbatim>\<open>src/document\<close>: a string,
  an array of documents (concatenation), the constants \<^verbatim>\<open>hardline\<close> and
  \<^verbatim>\<open>softline\<close>, and \<^verbatim>\<open>indent(contents)\<close>. These are the only builders the two
  source files import.
\<close>

datatype doc =
    Str string
  | Hardline
  | Softline
  | Indent doc
  | Concat "doc list"

text \<open>
  The sequence of strings and line breaks of a document, read left to right, without the
  nesting: what \<open>immediately before\<close> refers to. The empty string prints nothing.
\<close>

fun leaves :: "doc \<Rightarrow> doc list" where
  "leaves (Str s) = (if s = [] then [] else [Str s])"
| "leaves Hardline = [Hardline]"
| "leaves Softline = [Softline]"
| "leaves (Indent d) = leaves d"
| "leaves (Concat ds) = concat (map leaves ds)"

section \<open>The statement sequence emitter\<close>

text \<open>
  \<^verbatim>\<open>statements.at(-1)\<close> and \<^verbatim>\<open>statements[i]\<close> are \<^verbatim>\<open>undefined\<close> on an empty
  array and out of range.
\<close>

definition array_at_last :: "'a list \<Rightarrow> 'a option" where
  "array_at_last xs = (if xs = [] then None else Some (last xs))"

definition array_get :: "'a list \<Rightarrow> nat \<Rightarrow> 'a option" where
  "array_get xs i = (if i < length xs then Some (xs ! i) else None)"

text \<open>The two variables the callback of \<^verbatim>\<open>path.each\<close> mutates.\<close>

record emitter_state =
  parts :: "doc list"
  index :: nat

text \<open>
  One call of the callback of \<^verbatim>\<open>path.each\<close>. \<open>print\<close> is the printer of the current
  node, \<open>isNextLineEmpty\<close> the imported test with the options fixed. The early return
  on an \<^verbatim>\<open>EmptyStatement\<close> leaves \<open>index\<close> as it is. \<^verbatim>\<open>currentNode !==
  lastStatement\<close> compares object identities, and holds when \<open>lastStatement\<close> is
  \<^verbatim>\<open>undefined\<close>; \<^verbatim>\<open>nextNode && ...\<close> is falsy when \<open>nextNode\<close> is
  \<^verbatim>\<open>undefined\<close>.
\<close>

definition eachStatement ::
  "(node \<Rightarrow> doc) \<Rightarrow> (node \<Rightarrow> bool) \<Rightarrow> node list \<Rightarrow> node option \<Rightarrow>
   node \<Rightarrow> emitter_state \<Rightarrow> emitter_state" where
  "eachStatement print isNextLineEmpty statements lastStatement currentNode st =
     (if node_type currentNode = ''EmptyStatement'' then st
      else
        (let st1 = st\<lparr>parts := parts st @ [print currentNode]\<rparr>;
             st2 =
               (if (case lastStatement of None \<Rightarrow> True | Some l \<Rightarrow> ref currentNode \<noteq> ref l)
                then
                  (let nextNode = array_get statements (index st1 + 1);
                       hasBlankLineInSource = isNextLineEmpty currentNode;
                       shouldEnforceBlank =
                         (case nextNode of
                            None \<Rightarrow> False
                          | Some n \<Rightarrow> shouldEnforceBlankLineBetween currentNode n);
                       st3 = st1\<lparr>parts := parts st1 @ [Hardline]\<rparr>
                   in if hasBlankLineInSource \<or> shouldEnforceBlank
                      then st3\<lparr>parts := parts st3 @ [Hardline]\<rparr>
                      else st3)
                else st1)
         in st2\<lparr>index := index st2 + 1\<rparr>))"

text \<open>
  \<open>body\<close> is \<^verbatim>\<open>node[property]\<close>; \<^verbatim>\<open>path.each\<close> calls the callback on its elements
  in order.
\<close>

definition printStatementSequence ::
  "(node \<Rightarrow> doc) \<Rightarrow> (node \<Rightarrow> bool) \<Rightarrow> node list \<Rightarrow> doc list" where
  "printStatementSequence print isNextLineEmpty body =
     (let statements = filter (\<lambda>statement. node_type statement \<noteq> ''EmptyStatement'') body;
          lastStatement = array_at_last statements
      in parts (fold (eachStatement print isNextLineEmpty statements lastStatement) body
                  \<lparr>parts = [], index = 0\<rparr>))"

section \<open>Try statements and catch clauses\<close>

text \<open>
  A comment attached to a node carries the flags \<^verbatim>\<open>leading\<close> and \<^verbatim>\<open>trailing\<close>.
  The children of a try statement and of a catch clause are printed by the callback
  \<open>print\<close> and are otherwise not inspected, so their type is a parameter.
\<close>

record comment =
  leading :: bool
  trailing :: bool

record 'a catch_clause =
  param :: "'a option"
  body :: 'a

record 'a try_statement =
  block :: 'a
  handler :: "'a catch_clause option"
  finalizer :: "'a option"

text \<open>
  What \<^verbatim>\<open>printCatchClause\<close> imports and reads and the source files given do not define:
  the \<^verbatim>\<open>comments\<close> property of a node, \<^verbatim>\<open>isBlockComment\<close>, \<^verbatim>\<open>hasNewline\<close> (text,
  position, and whether it looks backwards), \<^verbatim>\<open>locStart\<close>, \<^verbatim>\<open>locEnd\<close>, and
  \<^verbatim>\<open>options.originalText\<close>. They are parameters of the model.
\<close>

record 'a catch_env =
  comments :: "'a \<Rightarrow> comment list"
  isBlockComment :: "comment \<Rightarrow> bool"
  hasNewline :: "string \<Rightarrow> nat \<Rightarrow> bool \<Rightarrow> bool"
  locStart :: "comment \<Rightarrow> nat"
  locEnd :: "comment \<Rightarrow> nat"
  originalText :: string

text \<open>
  Modelled from the spec: \<^verbatim>\<open>hasComment\<close> of \<^verbatim>\<open>utilities/index.js\<close> is not among the
  source files. The specification reads \<^verbatim>\<open>hasComment(node.param, test)\<close> as \<open>the bound
  parameter carries an attached comment that\<close> passes the test: some comment of the node
  satisfies it.
\<close>

definition hasComment :: "'a catch_env \<Rightarrow> 'a \<Rightarrow> (comment \<Rightarrow> bool) \<Rightarrow> bool" where
  "hasComment env n test = list_ex test (comments env n)"

text \<open>The arrow function \<^verbatim>\<open>printCatchClause\<close> gives to \<^verbatim>\<open>hasComment\<close>.\<close>

definition catchParamCommentTest :: "'a catch_env \<Rightarrow> comment \<Rightarrow> bool" where
  "catchParamCommentTest env c \<longleftrightarrow>
     \<not> isBlockComment env c \<or>
     (leading c \<and> hasNewline env (originalText env) (locEnd env c) False) \<or>
     (trailing c \<and> hasNewline env (originalText env) (locStart env c) True)"

definition printCatchClause :: "'a catch_env \<Rightarrow> ('a \<Rightarrow> doc) \<Rightarrow> 'a catch_clause \<Rightarrow> doc" where
  "printCatchClause env print n =
     (case param n of
        Some p \<Rightarrow>
          (let parameterHasComments = hasComment env p (catchParamCommentTest env);
               param_doc = print p
           in Concat
                [Hardline,
                 Str ''catch '',
                 (if parameterHasComments
                  then Concat [Str ''('', Indent (Concat [Softline, param_doc]), Softline, Str '') '']
                  else Concat [Str ''('', param_doc, Str '') '']),
                 print (body n)])
      | None \<Rightarrow> Concat [Hardline, Str ''catch '', print (body n)])"

text \<open>
  \<^verbatim>\<open>print("handler")\<close> goes through the printer's dispatch, which is not among the source
  files; \<open>printHandler\<close> stands for it.
\<close>

definition printTryStatement ::
  "('a \<Rightarrow> doc) \<Rightarrow> ('a catch_clause \<Rightarrow> doc) \<Rightarrow> 'a try_statement \<Rightarrow> doc" where
  "printTryStatement print printHandler n =
     Concat
       [Str ''try '',
        print (block n),
        (case handler n of
           Some h \<Rightarrow> Concat [Str '' '', printHandler h]
         | None \<Rightarrow> Str []),
        (case finalizer n of
           Some f \<Rightarrow> Concat [Hardline, Str ''finally '', print f]
         | None \<Rightarrow> Str [])]"

section \<open>Example statements\<close>

text \<open>The three statements of \<^verbatim>\<open>const a = 1; const b = 2; let c = 3;\<close>.\<close>

definition const_a :: node where
  "const_a =
     \<lparr>ref = 0, node_type = ''VariableDeclaration'', kind = ''const'',
      declarations =
        [\<lparr>decl_id = Some \<lparr>child_type = ''Identifier''\<rparr>,
          decl_init = Some \<lparr>child_type = ''NumericLiteral''\<rparr>\<rparr>]\<rparr>"

definition const_b :: node where
  "const_b =
     \<lparr>ref = 1, node_type = ''VariableDeclaration'', kind = ''const'',
      declarations =
        [\<lparr>decl_id = Some \<lparr>child_type = ''Identifier''\<rparr>,
          decl_init = Some \<lparr>child_type = ''NumericLiteral''\<rparr>\<rparr>]\<rparr>"

definition let_c :: node where
  "let_c =
     \<lparr>ref = 2, node_type = ''VariableDeclaration'', kind = ''let'',
      declarations =
        [\<lparr>decl_id = Some \<lparr>child_type = ''Identifier''\<rparr>,
          decl_init = Some \<lparr>child_type = ''NumericLiteral''\<rparr>\<rparr>]\<rparr>"

text \<open>A statement with no declarations, of the given identity and type.\<close>

definition plain :: "nat \<Rightarrow> string \<Rightarrow> node" where
  "plain r t = \<lparr>ref = r, node_type = t, kind = [], declarations = []\<rparr>"

text \<open>
  \<^verbatim>\<open>export const f = () => 1;\<close> seen as a node that carries a function-valued
  declarator, and \<^verbatim>\<open>const g = function () {};\<close>.
\<close>

definition export_f :: node where
  "export_f =
     \<lparr>ref = 10, node_type = ''ExportNamedDeclaration'', kind = ''const'',
      declarations =
        [\<lparr>decl_id = Some \<lparr>child_type = ''Identifier''\<rparr>,
          decl_init = Some \<lparr>child_type = ''ArrowFunctionExpression''\<rparr>\<rparr>]\<rparr>"

definition const_g :: node where
  "const_g =
     \<lparr>ref = 11, node_type = ''VariableDeclaration'', kind = ''const'',
      declarations =
        [\<lparr>decl_id = Some \<lparr>child_type = ''Identifier''\<rparr>,
          decl_init = Some \<lparr>child_type = ''FunctionExpression''\<rparr>\<rparr>]\<rparr>"

text \<open>A printer that shows a statement as its type, and two blank line oracles.\<close>

definition show_type :: "node \<Rightarrow> doc" where
  "show_type n = Str (node_type n)"

definition no_gap :: "node \<Rightarrow> bool" where
  "no_gap n = False"

text \<open>
  The oracle of a source text in which the only blank line follows the empty statement,
  as in \<^verbatim>\<open>a();\<close>, newline, \<^verbatim>\<open>;\<close>, newline, newline, \<^verbatim>\<open>b();\<close>.
\<close>

definition gap_after_empty :: "node \<Rightarrow> bool" where
  "gap_after_empty n \<longleftrightarrow> node_type n = ''EmptyStatement''"

text \<open>
  A catch environment over children named by strings: the parameter \<^verbatim>\<open>e\<close> carries one
  line comment, nothing else carries any.
\<close>

definition line_comment :: comment where
  "line_comment = \<lparr>leading = False, trailing = True\<rparr>"

definition env_e :: "string catch_env" where
  "env_e =
     \<lparr>comments = (\<lambda>n. if n = ''e'' then [line_comment] else []),
      isBlockComment = (\<lambda>c. False),
      hasNewline = (\<lambda>text i backwards. False),
      locStart = (\<lambda>c. 0),
      locEnd = (\<lambda>c. 0),
      originalText = []\<rparr>"

definition try_catch_finally :: "string try_statement" where
  "try_catch_finally =
     \<lparr>block = ''{ risky(); }'',
      handler = Some \<lparr>param = Some ''err'', body = ''{ handle(err); }''\<rparr>,
      finalizer = Some ''{ cleanup(); }''\<rparr>"

section \<open>Properties of the classification\<close>

lemmas classifier_defs =
  isImportOrExport_def isTopLevelDeclaration_def isVariableDeclaration_def
  isDestructuringDeclaration_def getDeclarationKind_def isBlockStatement_def
  isReturnLikeStatement_def isParagraphStatement_def areInSameDeclarationBlock_def
  destructuringId_def functionInit_def

lemma variable_declaration_not_import:
  "isVariableDeclaration n \<Longrightarrow> \<not> isImportOrExport n"
  by (simp add: isVariableDeclaration_def isImportOrExport_def)

lemma block_is_paragraph: "isBlockStatement n \<Longrightarrow> isParagraphStatement n"
  by (simp add: isParagraphStatement_def)

lemma block_not_import: "isBlockStatement n \<Longrightarrow> \<not> isImportOrExport n"
  by (auto simp add: isBlockStatement_def isImportOrExport_def)

lemma block_not_variable: "isBlockStatement n \<Longrightarrow> \<not> isVariableDeclaration n"
  by (auto simp add: isBlockStatement_def isVariableDeclaration_def)

lemma return_not_variable: "isReturnLikeStatement n \<Longrightarrow> \<not> isVariableDeclaration n"
  by (auto simp add: isReturnLikeStatement_def isVariableDeclaration_def)

section \<open>The decision rule\<close>

text \<open>
  C1. Two variable declarations of the same keyword, neither destructuring nor
  function-valued, get no enforced blank line. A variable declaration that is not in the
  same declaration block as the statement after it gets one, unless that statement is a
  return. In \<^verbatim>\<open>const a = 1; const b = 2; let c = 3;\<close> the only enforced blank line is
  the one before \<^verbatim>\<open>let c\<close>.
\<close>

theorem declaration_block_rules:
  "(isVariableDeclaration current \<and> isVariableDeclaration next \<and>
    \<not> isDestructuringDeclaration current \<and> \<not> isDestructuringDeclaration next \<and>
    getDeclarationKind current = getDeclarationKind next \<and>
    \<not> list_ex functionInit (declarations current) \<and>
    \<not> list_ex functionInit (declarations next)
      \<longrightarrow> \<not> shouldEnforceBlankLineBetween current next) \<and>
   (isVariableDeclaration current \<and> \<not> areInSameDeclarationBlock current next \<and>
    \<not> isReturnLikeStatement next
      \<longrightarrow> shouldEnforceBlankLineBetween current next) \<and>
   \<not> shouldEnforceBlankLineBetween const_a const_b \<and>
   shouldEnforceBlankLineBetween const_b let_c"
proof (intro conjI impI)
  assume h: "isVariableDeclaration current \<and> isVariableDeclaration next \<and>
    \<not> isDestructuringDeclaration current \<and> \<not> isDestructuringDeclaration next \<and>
    getDeclarationKind current = getDeclarationKind next \<and>
    \<not> list_ex functionInit (declarations current) \<and>
    \<not> list_ex functionInit (declarations next)"
  then have "areInSameDeclarationBlock current next"
    by (simp add: areInSameDeclarationBlock_def)
  moreover from h have "\<not> isImportOrExport current"
    by (simp add: variable_declaration_not_import)
  ultimately show "\<not> shouldEnforceBlankLineBetween current next"
    by (simp add: shouldEnforceBlankLineBetween_def)
next
  assume h: "isVariableDeclaration current \<and> \<not> areInSameDeclarationBlock current next \<and>
    \<not> isReturnLikeStatement next"
  then have "\<not> isImportOrExport current"
    by (simp add: variable_declaration_not_import)
  with h show "shouldEnforceBlankLineBetween current next"
    by (simp add: shouldEnforceBlankLineBetween_def)
next
  show "\<not> shouldEnforceBlankLineBetween const_a const_b"
    by (simp add: shouldEnforceBlankLineBetween_def classifier_defs const_a_def const_b_def)
next
  show "shouldEnforceBlankLineBetween const_b let_c"
    by (simp add: shouldEnforceBlankLineBetween_def classifier_defs let_c_def const_b_def)
qed

theorem declaration_block_rules_witness:
  "isVariableDeclaration const_a \<and> isVariableDeclaration const_b \<and>
   \<not> isDestructuringDeclaration const_a \<and> \<not> isDestructuringDeclaration const_b \<and>
   getDeclarationKind const_a = getDeclarationKind const_b \<and>
   \<not> list_ex functionInit (declarations const_a) \<and>
   \<not> list_ex functionInit (declarations const_b) \<and>
   \<not> shouldEnforceBlankLineBetween const_a const_b \<and>
   isVariableDeclaration const_b \<and> \<not> areInSameDeclarationBlock const_b let_c \<and>
   \<not> isReturnLikeStatement let_c \<and>
   shouldEnforceBlankLineBetween const_b let_c"
  using declaration_block_rules [of const_a const_b] declaration_block_rules [of const_b let_c]
  by (simp add: classifier_defs const_a_def const_b_def let_c_def)

text \<open>
  C2. After an import or export declaration, a statement that is not one gets an enforced
  blank line; between two import or export declarations none is enforced, whatever else
  the two nodes carry (function-valued declarators included).
\<close>

theorem import_export_rules:
  "(isImportOrExport current \<and> \<not> isImportOrExport next
      \<longrightarrow> shouldEnforceBlankLineBetween current next) \<and>
   (isImportOrExport current \<and> isImportOrExport next
      \<longrightarrow> \<not> shouldEnforceBlankLineBetween current next)"
  by (simp add: shouldEnforceBlankLineBetween_def)

theorem import_export_rules_witness:
  "isImportOrExport export_f \<and> \<not> isImportOrExport const_a \<and>
   shouldEnforceBlankLineBetween export_f const_a \<and>
   isImportOrExport (plain 0 ''ImportDeclaration'') \<and>
   list_ex functionInit (declarations export_f) \<and>
   \<not> shouldEnforceBlankLineBetween (plain 0 ''ImportDeclaration'') export_f \<and>
   \<not> shouldEnforceBlankLineBetween export_f (plain 0 ''ImportDeclaration'')"
  using import_export_rules [of export_f const_a]
    import_export_rules [of "plain 0 ''ImportDeclaration''" export_f]
    import_export_rules [of export_f "plain 0 ''ImportDeclaration''"]
  by (simp add: classifier_defs export_f_def const_a_def plain_def)

text \<open>
  C3. Before a variable declaration, a statement that is neither a variable declaration
  nor an import or export declaration gets an enforced blank line.
\<close>

theorem blank_before_declaration_block:
  "isVariableDeclaration next \<Longrightarrow> \<not> isVariableDeclaration current \<Longrightarrow>
   \<not> isImportOrExport current \<Longrightarrow> shouldEnforceBlankLineBetween current next"
  by (simp add: shouldEnforceBlankLineBetween_def areInSameDeclarationBlock_def)

theorem blank_before_declaration_block_witness:
  "isVariableDeclaration const_a \<and>
   \<not> isVariableDeclaration (plain 7 ''ExpressionStatement'') \<and>
   \<not> isImportOrExport (plain 7 ''ExpressionStatement'') \<and>
   shouldEnforceBlankLineBetween (plain 7 ''ExpressionStatement'') const_a"
  using blank_before_declaration_block [of const_a "plain 7 ''ExpressionStatement''"]
  by (simp add: classifier_defs const_a_def plain_def)

text \<open>
  C4. When none of the first five branches decides a pair (the two import and export
  branches, the same-block branch, the branch after a declaration and the branch before a
  declaration), and one of the two statements is a paragraph statement, a blank line is
  enforced. In particular one is enforced between a block-form statement and a return
  after it, as in \<^verbatim>\<open>if (x) { f(); } return y;\<close>.
\<close>

theorem paragraph_rule:
  "(\<not> (isImportOrExport current \<and> \<not> isImportOrExport next) \<and>
    \<not> (isImportOrExport current \<and> isImportOrExport next) \<and>
    \<not> areInSameDeclarationBlock current next \<and>
    \<not> (isVariableDeclaration current \<and> \<not> areInSameDeclarationBlock current next \<and>
       \<not> isReturnLikeStatement next) \<and>
    \<not> (isVariableDeclaration next \<and> \<not> isVariableDeclaration current \<and>
       \<not> isImportOrExport current) \<and>
    (isParagraphStatement current \<or> isParagraphStatement next)
      \<longrightarrow> shouldEnforceBlankLineBetween current next) \<and>
   (isBlockStatement current \<and> isReturnLikeStatement next
      \<longrightarrow> shouldEnforceBlankLineBetween current next) \<and>
   shouldEnforceBlankLineBetween (plain 0 ''IfStatement'') (plain 1 ''ReturnStatement'')"
proof (intro conjI impI)
  assume "\<not> (isImportOrExport current \<and> \<not> isImportOrExport next) \<and>
    \<not> (isImportOrExport current \<and> isImportOrExport next) \<and>
    \<not> areInSameDeclarationBlock current next \<and>
    \<not> (isVariableDeclaration current \<and> \<not> areInSameDeclarationBlock current next \<and>
       \<not> isReturnLikeStatement next) \<and>
    \<not> (isVariableDeclaration next \<and> \<not> isVariableDeclaration current \<and>
       \<not> isImportOrExport current) \<and>
    (isParagraphStatement current \<or> isParagraphStatement next)"
  then show "shouldEnforceBlankLineBetween current next"
    unfolding shouldEnforceBlankLineBetween_def by presburger
next
  assume h: "isBlockStatement current \<and> isReturnLikeStatement next"
  then have "isParagraphStatement current" "\<not> isImportOrExport current"
    "\<not> isVariableDeclaration current" "\<not> isVariableDeclaration next"
    by (simp_all add: block_is_paragraph block_not_import block_not_variable return_not_variable)
  then show "shouldEnforceBlankLineBetween current next"
    by (simp add: shouldEnforceBlankLineBetween_def areInSameDeclarationBlock_def)
next
  show "shouldEnforceBlankLineBetween (plain 0 ''IfStatement'') (plain 1 ''ReturnStatement'')"
    by (simp add: shouldEnforceBlankLineBetween_def classifier_defs plain_def)
qed

theorem paragraph_rule_witness:
  "\<not> (isImportOrExport const_g \<and> \<not> isImportOrExport (plain 1 ''ReturnStatement'')) \<and>
   \<not> (isImportOrExport const_g \<and> isImportOrExport (plain 1 ''ReturnStatement'')) \<and>
   \<not> areInSameDeclarationBlock const_g (plain 1 ''ReturnStatement'') \<and>
   \<not> (isVariableDeclaration const_g \<and>
      \<not> areInSameDeclarationBlock const_g (plain 1 ''ReturnStatement'') \<and>
      \<not> isReturnLikeStatement (plain 1 ''ReturnStatement'')) \<and>
   \<not> (isVariableDeclaration (plain 1 ''ReturnStatement'') \<and> \<not> isVariableDeclaration const_g \<and>
      \<not> isImportOrExport const_g) \<and>
   isParagraphStatement const_g \<and>
   shouldEnforceBlankLineBetween const_g (plain 1 ''ReturnStatement'') \<and>
   isBlockStatement (plain 0 ''IfStatement'') \<and>
   isReturnLikeStatement (plain 1 ''ReturnStatement'') \<and>
   shouldEnforceBlankLineBetween (plain 0 ''IfStatement'') (plain 1 ''ReturnStatement'')"
  using paragraph_rule [of const_g "plain 1 ''ReturnStatement''"]
  by (simp add: classifier_defs plain_def const_g_def)

text \<open>
  C5. The last two branches of \<^verbatim>\<open>shouldEnforceBlankLineBetween\<close> (a return after a
  paragraph statement, a return after a block statement) never decide: on every pair the
  function agrees with the rule made of the first six branches alone.
\<close>

theorem trailing_return_branches_dead:
  "shouldEnforceBlankLineBetween current next = requiresBlank current next"
  by (auto simp add: shouldEnforceBlankLineBetween_def requiresBlank_def isParagraphStatement_def)

theorem trailing_return_branches_dead_witness:
  "shouldEnforceBlankLineBetween (plain 0 ''WhileStatement'') (plain 1 ''ReturnStatement'') =
   requiresBlank (plain 0 ''WhileStatement'') (plain 1 ''ReturnStatement'')"
  by (rule trailing_return_branches_dead)

text \<open>
  C10. Only a \<^verbatim>\<open>ReturnStatement\<close> is return-like. After a variable declaration that is
  neither destructuring nor function-valued, a throw, break or continue statement gets an
  enforced blank line, and a return statement gets none.
\<close>

theorem only_return_is_return_like:
  "isVariableDeclaration current \<and> \<not> isDestructuringDeclaration current \<and>
   \<not> list_ex functionInit (declarations current) \<longrightarrow>
     (node_type next = ''ThrowStatement'' \<or> node_type next = ''BreakStatement'' \<or>
      node_type next = ''ContinueStatement''
        \<longrightarrow> shouldEnforceBlankLineBetween current next) \<and>
     (node_type next = ''ReturnStatement''
        \<longrightarrow> \<not> shouldEnforceBlankLineBetween current next)"
proof (intro conjI impI)
  assume c: "isVariableDeclaration current \<and> \<not> isDestructuringDeclaration current \<and>
   \<not> list_ex functionInit (declarations current)"
  assume "node_type next = ''ThrowStatement'' \<or> node_type next = ''BreakStatement'' \<or>
      node_type next = ''ContinueStatement''"
  then have "\<not> isVariableDeclaration next" "\<not> isReturnLikeStatement next"
    by (auto simp add: isVariableDeclaration_def isReturnLikeStatement_def)
  with c show "shouldEnforceBlankLineBetween current next"
    by (simp add: shouldEnforceBlankLineBetween_def areInSameDeclarationBlock_def
        variable_declaration_not_import)
next
  assume c: "isVariableDeclaration current \<and> \<not> isDestructuringDeclaration current \<and>
   \<not> list_ex functionInit (declarations current)"
  assume r: "node_type next = ''ReturnStatement''"
  from c have "\<not> isParagraphStatement current"
    by (auto simp add: isParagraphStatement_def isVariableDeclaration_def
        isTopLevelDeclaration_def isBlockStatement_def)
  moreover from c have "\<not> isBlockStatement current"
    using block_not_variable by blast
  moreover from r have "\<not> isParagraphStatement next"
    by (simp add: isParagraphStatement_def isTopLevelDeclaration_def isBlockStatement_def)
  moreover from r have "\<not> isVariableDeclaration next" "isReturnLikeStatement next"
    by (simp_all add: isVariableDeclaration_def isReturnLikeStatement_def)
  ultimately show "\<not> shouldEnforceBlankLineBetween current next"
    using c
    by (simp add: shouldEnforceBlankLineBetween_def areInSameDeclarationBlock_def
        variable_declaration_not_import)
qed

theorem only_return_is_return_like_witness:
  "isVariableDeclaration const_a \<and> \<not> isDestructuringDeclaration const_a \<and>
   \<not> list_ex functionInit (declarations const_a) \<and>
   shouldEnforceBlankLineBetween const_a (plain 3 ''ThrowStatement'') \<and>
   shouldEnforceBlankLineBetween const_a (plain 3 ''BreakStatement'') \<and>
   shouldEnforceBlankLineBetween const_a (plain 3 ''ContinueStatement'') \<and>
   \<not> shouldEnforceBlankLineBetween const_a (plain 3 ''ReturnStatement'')"
  using only_return_is_return_like [of const_a "plain 3 ''ThrowStatement''"]
    only_return_is_return_like [of const_a "plain 3 ''BreakStatement''"]
    only_return_is_return_like [of const_a "plain 3 ''ContinueStatement''"]
    only_return_is_return_like [of const_a "plain 3 ''ReturnStatement''"]
  by (simp add: classifier_defs const_a_def plain_def)

section \<open>The emitter loop\<close>

text \<open>
  The nodes of a parsed statement list are pairwise different objects. Under that
  condition the test \<^verbatim>\<open>currentNode !== lastStatement\<close> holds exactly at the positions
  before the last one.
\<close>

lemma ref_last_iff:
  assumes d: "distinct (map ref S)" and k: "k < length S"
  shows "ref (S ! k) = ref (last S) \<longleftrightarrow> Suc k = length S"
proof -
  from k have "S \<noteq> []" by auto
  then have l: "last S = S ! (length S - 1)" by (rule last_conv_nth)
  from k have k': "length S - 1 < length S" by simp
  have "ref (S ! k) = ref (S ! (length S - 1)) \<longleftrightarrow> k = length S - 1"
    using nth_eq_iff_index_eq [OF d, of k "length S - 1"] k k' by simp
  with l k show ?thesis by auto
qed

lemma eachStatement_empty:
  "node_type x = ''EmptyStatement'' \<Longrightarrow> eachStatement pr gap S l x st = st"
  by (simp add: eachStatement_def)

lemma eachStatement_step:
  assumes x: "node_type x \<noteq> ''EmptyStatement''"
    and d: "distinct (map ref S)" and k: "k < length S" and xk: "S ! k = x"
  shows "eachStatement pr gap S (array_at_last S) x \<lparr>parts = P, index = k\<rparr> =
         \<lparr>parts = P @ pr x #
            (if Suc k < length S
             then Hardline #
               (if gap x \<or> shouldEnforceBlankLineBetween x (S ! Suc k) then [Hardline] else [])
             else []),
          index = Suc k\<rparr>"
proof -
  from k have ne: "S \<noteq> []" by auto
  have r: "ref x = ref (last S) \<longleftrightarrow> Suc k = length S"
    using ref_last_iff [OF d k] xk by simp
  show ?thesis
  proof (cases "Suc k < length S")
    case True
    with r have "ref x \<noteq> ref (last S)" by simp
    with True x ne show ?thesis
      by (simp add: eachStatement_def array_at_last_def array_get_def Let_def)
  next
    case False
    with k have "Suc k = length S" by simp
    with r have "ref x = ref (last S)" by simp
    with False x ne show ?thesis
      by (simp add: eachStatement_def array_at_last_def Let_def)
  qed
qed

text \<open>
  The loop invariant: when the statements still to visit are, once filtered, the filtered
  array from position \<open>k\<close> on, the loop appends what the positions from \<open>k\<close> on emit.
\<close>

lemma fold_eachStatement:
  assumes d: "distinct (map ref S)"
  shows "filter (\<lambda>s. node_type s \<noteq> ''EmptyStatement'') rest = drop k S \<Longrightarrow>
    parts (fold (eachStatement pr gap S (array_at_last S)) rest \<lparr>parts = P, index = k\<rparr>) =
    P @ concat (map (\<lambda>i. pr (S ! i) #
            (if Suc i < length S
             then Hardline #
               (if gap (S ! i) \<or> shouldEnforceBlankLineBetween (S ! i) (S ! Suc i)
                then [Hardline] else [])
             else [])) [k..<length S])"
proof (induction rest arbitrary: P k)
  case Nil
  then have "length S \<le> k" by simp
  then show ?case by simp
next
  case (Cons x rest)
  show ?case
  proof (cases "node_type x = ''EmptyStatement''")
    case True
    with Cons.prems have "filter (\<lambda>s. node_type s \<noteq> ''EmptyStatement'') rest = drop k S"
      by simp
    from Cons.IH [OF this] True show ?thesis
      by (simp add: eachStatement_empty)
  next
    case False
    with Cons.prems have dk: "drop k S = x # filter (\<lambda>s. node_type s \<noteq> ''EmptyStatement'') rest"
      by simp
    then have "drop k S \<noteq> []" by simp
    then have k: "k < length S" by simp
    from k have "drop k S = S ! k # drop (Suc k) S"
      by (simp add: Cons_nth_drop_Suc)
    with dk have xk: "S ! k = x"
      and rest: "filter (\<lambda>s. node_type s \<noteq> ''EmptyStatement'') rest = drop (Suc k) S"
      by simp_all
    have up: "[k..<length S] = k # [Suc k..<length S]"
      using k by (rule upt_conv_Cons)
    show ?thesis
      by (simp add: eachStatement_step [OF False d k xk] Cons.IH [OF rest] up xk)
  qed
qed

lemma printStatementSequence_closed_form:
  assumes "distinct (map ref (filter (\<lambda>s. node_type s \<noteq> ''EmptyStatement'') stmts))"
  shows "printStatementSequence pr gap stmts =
    (let statements = filter (\<lambda>s. node_type s \<noteq> ''EmptyStatement'') stmts
     in concat (map (\<lambda>i. pr (statements ! i) #
            (if Suc i < length statements
             then Hardline #
               (if gap (statements ! i) \<or>
                   shouldEnforceBlankLineBetween (statements ! i) (statements ! Suc i)
                then [Hardline] else [])
             else [])) [0..<length statements]))"
  using fold_eachStatement [OF assms, of stmts 0 pr gap "[]"]
  by (simp add: printStatementSequence_def Let_def)

text \<open>
  C6. For a statement list whose non-empty statements are different objects, the output
  of \<^verbatim>\<open>printStatementSequence\<close> is, for each position \<open>i\<close> of the filtered list in
  order: the printed statement; then, when \<open>i\<close> is not the last position, one line
  break, and one more exactly when the blank line oracle holds at the statement or
  \<^verbatim>\<open>shouldEnforceBlankLineBetween\<close> holds for it and the next filtered statement. After
  the last filtered statement nothing is emitted.
\<close>

theorem printStatementSequence_separators:
  "distinct (map ref (filter (\<lambda>s. node_type s \<noteq> ''EmptyStatement'') stmts)) \<Longrightarrow>
   printStatementSequence pr gap stmts =
    (let statements = filter (\<lambda>s. node_type s \<noteq> ''EmptyStatement'') stmts
     in concat (map (\<lambda>i. pr (statements ! i) #
            (if Suc i < length statements
             then Hardline #
               (if gap (statements ! i) \<or>
                   shouldEnforceBlankLineBetween (statements ! i) (statements ! Suc i)
                then [Hardline] else [])
             else [])) [0..<length statements]))"
  by (rule printStatementSequence_closed_form)

theorem printStatementSequence_separators_witness:
  "distinct (map ref (filter (\<lambda>s. node_type s \<noteq> ''EmptyStatement'')
      [const_a, plain 5 ''EmptyStatement'', const_b, let_c])) \<and>
   printStatementSequence show_type no_gap [const_a, plain 5 ''EmptyStatement'', const_b, let_c] =
     [show_type const_a, Hardline, show_type const_b, Hardline, Hardline, show_type let_c]"
proof -
  have d: "distinct (map ref (filter (\<lambda>s. node_type s \<noteq> ''EmptyStatement'')
      [const_a, plain 5 ''EmptyStatement'', const_b, let_c]))"
    by (simp add: const_a_def const_b_def let_c_def plain_def)
  have f: "filter (\<lambda>s. node_type s \<noteq> ''EmptyStatement'')
      [const_a, plain 5 ''EmptyStatement'', const_b, let_c] = [const_a, const_b, let_c]"
    by (simp add: const_a_def const_b_def let_c_def plain_def)
  have e: "\<not> shouldEnforceBlankLineBetween const_a const_b"
     "shouldEnforceBlankLineBetween const_b let_c"
    by (simp_all add: shouldEnforceBlankLineBetween_def classifier_defs
        const_a_def const_b_def let_c_def)
  from printStatementSequence_separators [OF d, of show_type no_gap] d show ?thesis
    unfolding f by (simp add: Let_def e no_gap_def)
qed

text \<open>
  C7, as stated, asks that the blank line fact for the boundary between \<open>A\<close> and
  \<open>B\<close> in \<open>[A, Empty, B]\<close> be the one of the last statement before \<open>B\<close> in the
  unfiltered order, which is the empty statement. The loop returns on an empty statement
  before it asks the oracle: with a blank line recorded after the empty statement only,
  a single line break separates \<open>A\<close> and \<open>B\<close>.
\<close>

theorem empty_statement_gap_counterexample:
  "gap_after_empty (plain 1 ''EmptyStatement'') \<and>
   printStatementSequence show_type gap_after_empty
     [plain 0 ''ExpressionStatement'', plain 1 ''EmptyStatement'', plain 2 ''DebuggerStatement''] \<noteq>
     [Str ''ExpressionStatement'', Hardline, Hardline, Str ''DebuggerStatement''] \<and>
   printStatementSequence show_type gap_after_empty
     [plain 0 ''ExpressionStatement'', plain 1 ''EmptyStatement'', plain 2 ''DebuggerStatement''] =
     [Str ''ExpressionStatement'', Hardline, Str ''DebuggerStatement'']"
  by (simp add: printStatementSequence_def eachStatement_def array_at_last_def array_get_def
      shouldEnforceBlankLineBetween_def classifier_defs plain_def gap_after_empty_def
      show_type_def Let_def)

text \<open>
  C7, amended. Empty statements are transparent: a statement list whose non-empty
  statements are different objects is emitted as the list without its empty statements
  is, with the same printer and the same oracle; \<open>[A, Empty, B]\<close> is emitted as
  \<open>[A, B]\<close>, and the blank line fact of the boundary is the oracle's answer at \<open>A\<close>,
  the nearest non-empty statement before \<open>B\<close>. The oracle is not asked at the empty
  statement.
\<close>

theorem empty_statements_transparent:
  "(distinct (map ref (filter (\<lambda>s. node_type s \<noteq> ''EmptyStatement'') stmts)) \<longrightarrow>
      printStatementSequence pr gap stmts =
      printStatementSequence pr gap (filter (\<lambda>s. node_type s \<noteq> ''EmptyStatement'') stmts)) \<and>
   (node_type a \<noteq> ''EmptyStatement'' \<and> node_type e = ''EmptyStatement'' \<and>
    node_type b \<noteq> ''EmptyStatement'' \<and> ref a \<noteq> ref b \<longrightarrow>
      printStatementSequence pr gap [a, e, b] = printStatementSequence pr gap [a, b] \<and>
      printStatementSequence pr gap [a, e, b] =
        pr a # Hardline #
        (if gap a \<or> shouldEnforceBlankLineBetween a b then [Hardline] else []) @ [pr b])"
proof (intro conjI impI)
  assume d: "distinct (map ref (filter (\<lambda>s. node_type s \<noteq> ''EmptyStatement'') stmts))"
  then have d': "distinct (map ref (filter (\<lambda>s. node_type s \<noteq> ''EmptyStatement'')
      (filter (\<lambda>s. node_type s \<noteq> ''EmptyStatement'') stmts)))"
    by simp
  show "printStatementSequence pr gap stmts =
      printStatementSequence pr gap (filter (\<lambda>s. node_type s \<noteq> ''EmptyStatement'') stmts)"
    unfolding printStatementSequence_closed_form [OF d]
      printStatementSequence_closed_form [OF d']
    by simp
next
  assume h: "node_type a \<noteq> ''EmptyStatement'' \<and> node_type e = ''EmptyStatement'' \<and>
    node_type b \<noteq> ''EmptyStatement'' \<and> ref a \<noteq> ref b"
  then have d1: "distinct (map ref (filter (\<lambda>s. node_type s \<noteq> ''EmptyStatement'') [a, e, b]))"
    and d2: "distinct (map ref (filter (\<lambda>s. node_type s \<noteq> ''EmptyStatement'') [a, b]))"
    by simp_all
  from h show "printStatementSequence pr gap [a, e, b] = printStatementSequence pr gap [a, b]"
    unfolding printStatementSequence_closed_form [OF d1]
      printStatementSequence_closed_form [OF d2]
    by simp
next
  assume h: "node_type a \<noteq> ''EmptyStatement'' \<and> node_type e = ''EmptyStatement'' \<and>
    node_type b \<noteq> ''EmptyStatement'' \<and> ref a \<noteq> ref b"
  then have d1: "distinct (map ref (filter (\<lambda>s. node_type s \<noteq> ''EmptyStatement'') [a, e, b]))"
    by simp
  from h show "printStatementSequence pr gap [a, e, b] =
        pr a # Hardline #
        (if gap a \<or> shouldEnforceBlankLineBetween a b then [Hardline] else []) @ [pr b]"
    unfolding printStatementSequence_closed_form [OF d1]
    by simp
qed

theorem empty_statements_transparent_witness:
  "distinct (map ref (filter (\<lambda>s. node_type s \<noteq> ''EmptyStatement'')
      [plain 0 ''ExpressionStatement'', plain 1 ''EmptyStatement'', plain 2 ''DebuggerStatement''])) \<and>
   printStatementSequence show_type gap_after_empty
     [plain 0 ''ExpressionStatement'', plain 1 ''EmptyStatement'', plain 2 ''DebuggerStatement''] =
   printStatementSequence show_type gap_after_empty
     [plain 0 ''ExpressionStatement'', plain 2 ''DebuggerStatement''] \<and>
   printStatementSequence show_type gap_after_empty
     [plain 0 ''ExpressionStatement'', plain 1 ''EmptyStatement'', plain 2 ''DebuggerStatement''] =
     [Str ''ExpressionStatement'', Hardline, Str ''DebuggerStatement'']"
  using empty_statements_transparent
    [of "[plain 0 ''ExpressionStatement'', plain 1 ''EmptyStatement'', plain 2 ''DebuggerStatement'']"
      show_type gap_after_empty
      "plain 0 ''ExpressionStatement''" "plain 1 ''EmptyStatement''" "plain 2 ''DebuggerStatement''"]
  by (auto simp add: plain_def gap_after_empty_def show_type_def
      shouldEnforceBlankLineBetween_def classifier_defs)

section \<open>Clause placement\<close>

text \<open>
  C8. With the handler printed by \<^verbatim>\<open>printCatchClause\<close>, the document of a try statement
  that has a handler reads \<^verbatim>\<open>try\<close>, the block, a space, a forced line break and then
  the keyword \<^verbatim>\<open>catch\<close>; the document of a try statement that has a finalizer ends with
  a forced line break, the keyword \<^verbatim>\<open>finally\<close> and the finalizer, with or without a
  handler before it. The document of every catch clause, with or without a parameter,
  starts with the forced line break and the keyword.
\<close>

theorem try_clauses_on_new_line:
  "(handler n = Some h \<longrightarrow>
      (\<exists>after.
         leaves (printTryStatement print (printCatchClause env print) n) =
           Str ''try '' # leaves (print (block n)) @
           [Str '' '', Hardline, Str ''catch ''] @ after)) \<and>
   (finalizer n = Some f \<longrightarrow>
      (\<exists>before.
         leaves (printTryStatement print (printCatchClause env print) n) =
           before @ [Hardline, Str ''finally ''] @ leaves (print f))) \<and>
   (\<exists>ds. printCatchClause env print c = Concat (Hardline # Str ''catch '' # ds))"
proof (intro conjI impI)
  assume "handler n = Some h"
  then show "\<exists>after.
         leaves (printTryStatement print (printCatchClause env print) n) =
           Str ''try '' # leaves (print (block n)) @
           [Str '' '', Hardline, Str ''catch ''] @ after"
    by (cases "param h") (simp_all add: printTryStatement_def printCatchClause_def Let_def)
next
  assume "finalizer n = Some f"
  then show "\<exists>before.
         leaves (printTryStatement print (printCatchClause env print) n) =
           before @ [Hardline, Str ''finally ''] @ leaves (print f)"
    by (cases "handler n") (simp_all add: printTryStatement_def)
next
  show "\<exists>ds. printCatchClause env print c = Concat (Hardline # Str ''catch '' # ds)"
    by (cases "param c") (simp_all add: printCatchClause_def Let_def)
qed

theorem try_clauses_on_new_line_witness:
  "handler try_catch_finally = Some \<lparr>param = Some ''err'', body = ''{ handle(err); }''\<rparr> \<and>
   finalizer try_catch_finally = Some ''{ cleanup(); }'' \<and>
   leaves (printTryStatement Str (printCatchClause env_e Str) try_catch_finally) =
     [Str ''try '', Str ''{ risky(); }'', Str '' '', Hardline, Str ''catch '',
      Str ''('', Str ''err'', Str '') '', Str ''{ handle(err); }'',
      Hardline, Str ''finally '', Str ''{ cleanup(); }'']"
  using try_clauses_on_new_line
    [of try_catch_finally "\<lparr>param = Some ''err'', body = ''{ handle(err); }''\<rparr>"
      Str env_e "''{ cleanup(); }''"]
  by (simp add: try_catch_finally_def printTryStatement_def printCatchClause_def
      hasComment_def env_e_def Let_def)

text \<open>
  C9. For a catch clause with a parameter: when some comment attached to the parameter is
  not a block comment, or is a leading block comment with a newline after its end, or is
  a trailing block comment with a newline before its start, the parameter is printed
  between the parentheses inside an indentation, with a soft line break before it and a
  soft line break before the closing parenthesis; otherwise, and so when it has no
  comments, it is printed between the parentheses with no line break.
\<close>

theorem catch_param_rendering:
  "param c = Some p \<Longrightarrow>
   printCatchClause env print c =
     Concat
       [Hardline, Str ''catch '',
        (if \<exists>k \<in> set (comments env p).
              \<not> isBlockComment env k \<or>
              (isBlockComment env k \<and> leading k \<and>
               hasNewline env (originalText env) (locEnd env k) False) \<or>
              (isBlockComment env k \<and> trailing k \<and>
               hasNewline env (originalText env) (locStart env k) True)
         then Concat [Str ''('', Indent (Concat [Softline, print p]), Softline, Str '') '']
         else Concat [Str ''('', print p, Str '') '']),
        print (body c)]"
proof -
  assume p: "param c = Some p"
  have "hasComment env p (catchParamCommentTest env) \<longleftrightarrow>
        (\<exists>k \<in> set (comments env p).
              \<not> isBlockComment env k \<or>
              (isBlockComment env k \<and> leading k \<and>
               hasNewline env (originalText env) (locEnd env k) False) \<or>
              (isBlockComment env k \<and> trailing k \<and>
               hasNewline env (originalText env) (locStart env k) True))"
    unfolding hasComment_def catchParamCommentTest_def list_ex_iff by blast
  with p show ?thesis
    by (simp add: printCatchClause_def Let_def)
qed

theorem catch_param_rendering_witness:
  "param \<lparr>param = Some ''e'', body = ''{}''\<rparr> = Some ''e'' \<and>
   printCatchClause env_e Str \<lparr>param = Some ''e'', body = ''{}''\<rparr> =
     Concat [Hardline, Str ''catch '',
       Concat [Str ''('', Indent (Concat [Softline, Str ''e'']), Softline, Str '') ''],
       Str ''{}''] \<and>
   param \<lparr>param = Some ''err'', body = ''{}''\<rparr> = Some ''err'' \<and>
   printCatchClause env_e Str \<lparr>param = Some ''err'', body = ''{}''\<rparr> =
     Concat [Hardline, Str ''catch '', Concat [Str ''('', Str ''err'', Str '') ''], Str ''{}'']"
  using catch_param_rendering [of "\<lparr>param = Some ''e'', body = ''{}''\<rparr>" "''e''" env_e Str]
    catch_param_rendering [of "\<lparr>param = Some ''err'', body = ''{}''\<rparr>" "''err''" env_e Str]
  by (simp add: env_e_def line_comment_def)

end
